theory Spec2Isabelle
  imports Complex_Main "HOL-Library.Word" "HOL-Library.Char_ord" "HOL-Library.List_Lexorder"
begin

section \<open>Error codes and the status table\<close>

text \<open>
  \<^verbatim>\<open>type ErrorCode string\<close>: a code is any string; the nine predeclared codes are
  constants of that type, and a host may add its own.
\<close>

type_synonym ErrorCode = string

definition ErrCodeNotFound :: ErrorCode where
  "ErrCodeNotFound = ''NOT_FOUND''"

definition ErrCodeValidation :: ErrorCode where
  "ErrCodeValidation = ''VALIDATION_ERROR''"

definition ErrCodeInternal :: ErrorCode where
  "ErrCodeInternal = ''INTERNAL_ERROR''"

definition ErrCodeUnauthorized :: ErrorCode where
  "ErrCodeUnauthorized = ''UNAUTHORIZED''"

definition ErrCodeForbidden :: ErrorCode where
  "ErrCodeForbidden = ''FORBIDDEN''"

definition ErrCodeBadRequest :: ErrorCode where
  "ErrCodeBadRequest = ''BAD_REQUEST''"

definition ErrCodeConflict :: ErrorCode where
  "ErrCodeConflict = ''CONFLICT''"

definition ErrCodeTooManyRequests :: ErrorCode where
  "ErrCodeTooManyRequests = ''TOO_MANY_REQUESTS''"

definition ErrCodeServiceUnavailable :: ErrorCode where
  "ErrCodeServiceUnavailable = ''SERVICE_UNAVAILABLE''"

lemmas ErrCode_defs =
  ErrCodeNotFound_def ErrCodeValidation_def ErrCodeInternal_def ErrCodeUnauthorized_def
  ErrCodeForbidden_def ErrCodeBadRequest_def ErrCodeConflict_def ErrCodeTooManyRequests_def
  ErrCodeServiceUnavailable_def

text \<open>The status constants of net/http that http.go uses.\<close>

definition StatusOK :: int where "StatusOK = 200"
definition StatusBadRequest :: int where "StatusBadRequest = 400"
definition StatusUnauthorized :: int where "StatusUnauthorized = 401"
definition StatusForbidden :: int where "StatusForbidden = 403"
definition StatusNotFound :: int where "StatusNotFound = 404"
definition StatusConflict :: int where "StatusConflict = 409"
definition StatusTooManyRequests :: int where "StatusTooManyRequests = 429"
definition StatusInternalServerError :: int where "StatusInternalServerError = 500"
definition StatusServiceUnavailable :: int where "StatusServiceUnavailable = 503"

lemmas Status_defs =
  StatusOK_def StatusBadRequest_def StatusUnauthorized_def StatusForbidden_def
  StatusNotFound_def StatusConflict_def StatusTooManyRequests_def
  StatusInternalServerError_def StatusServiceUnavailable_def

text \<open>
  \<^verbatim>\<open>getHTTPStatusCode\<close> (http.go): the switch, case by case in the source's order; the
  case \<^verbatim>\<open>ErrCodeInternal\<close> falls through to \<^verbatim>\<open>default\<close>.
\<close>

definition getHTTPStatusCode :: "ErrorCode \<Rightarrow> int" where
  "getHTTPStatusCode code =
     (if code = ErrCodeNotFound then StatusNotFound
      else if code = ErrCodeValidation \<or> code = ErrCodeBadRequest then StatusBadRequest
      else if code = ErrCodeUnauthorized then StatusUnauthorized
      else if code = ErrCodeForbidden then StatusForbidden
      else if code = ErrCodeConflict then StatusConflict
      else if code = ErrCodeTooManyRequests then StatusTooManyRequests
      else if code = ErrCodeServiceUnavailable then StatusServiceUnavailable
      else if code = ErrCodeInternal then StatusInternalServerError
      else StatusInternalServerError)"

definition predeclared_codes :: "ErrorCode list" where
  "predeclared_codes =
     [ErrCodeNotFound, ErrCodeValidation, ErrCodeInternal, ErrCodeUnauthorized,
      ErrCodeForbidden, ErrCodeBadRequest, ErrCodeConflict, ErrCodeTooManyRequests,
      ErrCodeServiceUnavailable]"

section \<open>Decimal digits\<close>

text \<open>\<^verbatim>\<open>%d\<close> of fmt: the decimal digits of an integer, with a minus sign when negative.\<close>

definition digit_char :: "nat \<Rightarrow> char" where
  "digit_char d = ''0123456789'' ! d"

function decimal :: "nat \<Rightarrow> string" where
  "decimal n = (if n < 10 then [digit_char n] else decimal (n div 10) @ [digit_char (n mod 10)])"
  by pat_completeness auto
termination
  by (relation "measure id") auto

declare decimal.simps [simp del]

definition fmt_d :: "int \<Rightarrow> string" where
  "fmt_d i = (if i < 0 then ''-'' @ decimal (nat (- i)) else decimal (nat i))"

section \<open>Strings of encoding/json\<close>

text \<open>
  A Go string is a sequence of bytes. \<open>rune_size\<close> is \<^verbatim>\<open>utf8.DecodeRuneInString\<close>
  at the head of a string: the length of the UTF-8 encoding that starts there, or 0
  when there is none (the decoder's \<^verbatim>\<open>RuneError\<close> of width 1): a lead byte below
  0x80 stands alone, 0xC2 to 0xDF takes one continuation byte, 0xE0 to 0xEF two and
  0xF0 to 0xF4 three, the first of them in the narrower range that excludes overlong
  forms, surrogates and code points above U+10FFFF.
\<close>

definition byte :: "char \<Rightarrow> nat" where
  "byte c = of_char c"

definition continuation :: "char \<Rightarrow> bool" where
  "continuation c = (128 \<le> byte c \<and> byte c \<le> 191)"

definition second_of_three :: "nat \<Rightarrow> char \<Rightarrow> bool" where
  "second_of_three lead c =
     (if lead = 224 then 160 \<le> byte c \<and> byte c \<le> 191
      else if lead = 237 then 128 \<le> byte c \<and> byte c \<le> 159
      else continuation c)"

definition second_of_four :: "nat \<Rightarrow> char \<Rightarrow> bool" where
  "second_of_four lead c =
     (if lead = 240 then 144 \<le> byte c \<and> byte c \<le> 191
      else if lead = 244 then 128 \<le> byte c \<and> byte c \<le> 143
      else continuation c)"

fun rune_size :: "string \<Rightarrow> nat" where
  "rune_size [] = 0"
| "rune_size (c # cs) =
     (if byte c < 128 then 1
      else if 194 \<le> byte c \<and> byte c \<le> 223 then
        (case cs of
           c1 # _ \<Rightarrow> if continuation c1 then 2 else 0
         | _ \<Rightarrow> 0)
      else if 224 \<le> byte c \<and> byte c \<le> 239 then
        (case cs of
           c1 # c2 # _ \<Rightarrow> if second_of_three (byte c) c1 \<and> continuation c2 then 3 else 0
         | _ \<Rightarrow> 0)
      else if 240 \<le> byte c \<and> byte c \<le> 244 then
        (case cs of
           c1 # c2 # c3 # _ \<Rightarrow>
             if second_of_four (byte c) c1 \<and> continuation c2 \<and> continuation c3 then 4
             else 0
         | _ \<Rightarrow> 0)
      else 0)"

text \<open>
  Both the encoder and the decoder of encoding/json go through a string rune by rune
  and put U+FFFD (the bytes EF BF BD) in the place of every byte that starts no valid
  encoding. The first argument counts the bytes still to copy of the encoding in
  progress. \<open>valid_utf8\<close> is \<^verbatim>\<open>utf8.ValidString\<close>.
\<close>

definition replacement :: string where
  "replacement = [CHR 0xEF, CHR 0xBF, CHR 0xBD]"

fun coerce_from :: "nat \<Rightarrow> string \<Rightarrow> string" where
  "coerce_from n [] = []"
| "coerce_from (Suc n) (c # cs) = c # coerce_from n cs"
| "coerce_from 0 (c # cs) =
     (case rune_size (c # cs) of
        0 \<Rightarrow> replacement @ coerce_from 0 cs
      | Suc k \<Rightarrow> c # coerce_from k cs)"

definition to_valid_utf8 :: "string \<Rightarrow> string" where
  "to_valid_utf8 s = coerce_from 0 s"

fun valid_from :: "nat \<Rightarrow> string \<Rightarrow> bool" where
  "valid_from n [] = True"
| "valid_from (Suc n) (c # cs) = valid_from n cs"
| "valid_from 0 (c # cs) =
     (case rune_size (c # cs) of
        0 \<Rightarrow> False
      | Suc k \<Rightarrow> valid_from k cs)"

definition valid_utf8 :: "string \<Rightarrow> bool" where
  "valid_utf8 s = valid_from 0 s"

text \<open>
  The decoder finds the field of an object member by its name, exactly or folded:
  \<^verbatim>\<open>foldName\<close> puts the ASCII letters in upper case and every other rune on the
  smallest rune of its case orbit. Of the runes outside ASCII only U+017F (long s,
  bytes C5 BF) and U+212A (Kelvin sign, bytes E2 84 AA) fold to an ASCII letter, S and
  K; the others stay outside ASCII, and are left as they are here, since the names of
  this package's fields are ASCII.
\<close>

definition upper_ascii :: "char \<Rightarrow> char" where
  "upper_ascii c =
     (case map_of (zip ''abcdefghijklmnopqrstuvwxyz'' ''ABCDEFGHIJKLMNOPQRSTUVWXYZ'') c of
        None \<Rightarrow> c
      | Some u \<Rightarrow> u)"

fun foldName :: "string \<Rightarrow> string" where
  "foldName [] = []"
| "foldName [a] = [upper_ascii a]"
| "foldName [a, b] =
     (if a = CHR 0xC5 \<and> b = CHR 0xBF then ''S'' else upper_ascii a # foldName [b])"
| "foldName (a # b # c # cs) =
     (if a = CHR 0xE2 \<and> b = CHR 0x84 \<and> c = CHR 0xAA then CHR ''K'' # foldName cs
      else if a = CHR 0xC5 \<and> b = CHR 0xBF then CHR ''S'' # foldName (c # cs)
      else upper_ascii a # foldName (b # c # cs))"

definition names_match :: "string \<Rightarrow> string \<Rightarrow> bool" where
  "names_match key name = (key = name \<or> foldName key = foldName name)"

section \<open>Numbers of encoding/json\<close>

text \<open>
  A float64 is a finite value, written as the rational number it is, or negative
  zero, an infinity or NaN. A number of a JSON document is written as the rational
  number its literal denotes.

  \<open>ParseFloat\<close> is \<^verbatim>\<open>strconv.ParseFloat(s, 64)\<close> on a literal of that value: the
  nearest float64, ties to the even mantissa, with 53 bits of mantissa and the
  exponent of the last bit no less than -1074; a value of half a unit in the last
  place beyond the largest float64, or more, is the range error (\<open>None\<close>); a
  negative value that rounds to zero gives negative zero.
\<close>

datatype float64 = Finite rat | NegZero | PosInf | NegInf | NaN

function bit_length :: "nat \<Rightarrow> nat" where
  "bit_length n = (if n = 0 then 0 else Suc (bit_length (n div 2)))"
  by pat_completeness auto
termination
  by (relation "measure id") auto

declare bit_length.simps [simp del]

definition ilog2 :: "rat \<Rightarrow> int" where
  "ilog2 a =
     (if 1 \<le> a then int (bit_length (nat \<lfloor>a\<rfloor>)) - 1
      else (let k = int (bit_length (nat \<lfloor>1 / a\<rfloor>)) - 1
            in if a = 2 powi (- k) then - k else - k - 1))"

definition round_half_even :: "rat \<Rightarrow> int" where
  "round_half_even x =
     (let f = \<lfloor>x\<rfloor>; d = x - of_int f
      in if d < 1 / 2 then f else if 1 / 2 < d then f + 1 else if even f then f else f + 1)"

definition round_magnitude :: "rat \<Rightarrow> rat" where
  "round_magnitude a =
     (let t = max (ilog2 a - 52) (- 1074)
      in of_int (round_half_even (a / 2 powi t)) * 2 powi t)"

definition ParseFloat :: "rat \<Rightarrow> float64 option" where
  "ParseFloat q =
     (if q = 0 then Some (Finite 0)
      else if 2 ^ 1024 - 2 ^ 970 \<le> \<bar>q\<bar> then None
      else if 0 < q then Some (Finite (round_magnitude q))
      else (let r = round_magnitude (- q)
            in if r = 0 then Some NegZero else Some (Finite (- r))))"

text \<open>
  \<open>FormatFloat\<close> is the value of the literal that the encoder writes for a finite
  float64 (\<^verbatim>\<open>strconv.AppendFloat\<close> with precision -1): the decimal of the fewest
  significant digits, up to 17, that \<open>ParseFloat\<close> reads back as the same float64,
  the nearer to the value first. \<open>decimal_candidates a n\<close> are the two decimals of \<open>n\<close>
  significant digits next to \<open>a\<close>.
\<close>

definition ilog10 :: "rat \<Rightarrow> int" where
  "ilog10 a =
     (if 1 \<le> a then int (length (decimal (nat \<lfloor>a\<rfloor>))) - 1
      else (let k = int (length (decimal (nat \<lfloor>1 / a\<rfloor>))) - 1
            in if a = 10 powi (- k) then - k else - k - 1))"

definition decimal_candidates :: "rat \<Rightarrow> nat \<Rightarrow> rat list" where
  "decimal_candidates a n =
     (let s = ilog10 a - int n + 1;
          x = a / 10 powi s;
          lo = of_int \<lfloor>x\<rfloor> * 10 powi s;
          hi = of_int \<lceil>x\<rceil> * 10 powi s
      in if x - of_int \<lfloor>x\<rfloor> \<le> 1 / 2 then [lo, hi] else [hi, lo])"

definition literal_candidates :: "rat \<Rightarrow> rat list" where
  "literal_candidates q =
     (if 0 < q then concat (map (decimal_candidates q) [1..<18])
      else map uminus (concat (map (decimal_candidates (- q)) [1..<18])))"

definition FormatFloat :: "rat \<Rightarrow> rat" where
  "FormatFloat q =
     (if q = 0 then 0
      else (case find (\<lambda>d. ParseFloat d = Some (Finite q)) (literal_candidates q) of
              Some d \<Rightarrow> d
            | None \<Rightarrow> q))"

definition is_int64 :: "int \<Rightarrow> bool" where
  "is_int64 n = (- (2 ^ 63) \<le> n \<and> n < 2 ^ 63)"

section \<open>Dynamic values and JSON documents\<close>

text \<open>
  The values an \<^verbatim>\<open>interface{}\<close> holds in this package (details, payloads, panic values,
  context values), by dynamic type: the nil interface, \<^verbatim>\<open>bool\<close>, \<^verbatim>\<open>int\<close>,
  \<^verbatim>\<open>float64\<close>, \<^verbatim>\<open>string\<close>, \<^verbatim>\<open>[]interface{}\<close>, \<^verbatim>\<open>map[string]interface{}\<close> and
  \<^verbatim>\<open>map[string]string\<close>, each of the three containers with its nil value apart from
  its empty one, and a channel (by an identifier). A map that is not nil is written
  as the list of its entries in ascending order of the keys, compared byte by byte,
  without repeated keys: \<open>canonical\<close> puts a list of entries into that form, a later
  entry replacing an earlier one of the same key, as assignments to a map do.
\<close>

datatype go_value =
    GoNil
  | GoBool bool
  | GoInt int
  | GoFloat64 float64
  | GoString string
  | GoSlice "go_value list"
  | GoNilSlice
  | GoMap "(string \<times> go_value) list"
  | GoNilMap
  | GoMapString "(string \<times> string) list"
  | GoNilMapString
  | GoChan nat

fun upsert :: "string \<Rightarrow> 'a \<Rightarrow> (string \<times> 'a) list \<Rightarrow> (string \<times> 'a) list" where
  "upsert k v [] = [(k, v)]"
| "upsert k v ((k', v') # m) =
     (if k < k' then (k, v) # (k', v') # m
      else if k = k' then (k, v) # m
      else (k', v') # upsert k v m)"

definition canonical :: "(string \<times> 'a) list \<Rightarrow> (string \<times> 'a) list" where
  "canonical kvs = foldl (\<lambda>m kv. upsert (fst kv) (snd kv) m) [] kvs"

text \<open>
  A JSON document, as a tree: an object keeps its members in document order; a
  number is the value of its literal, the literal \<^verbatim>\<open>-0\<close> apart; an integral value is
  taken in its plain spelling, without fraction or exponent.
\<close>

datatype json =
    JNull
  | JBool bool
  | JNum rat
  | JNegZero
  | JStr string
  | JArr "json list"
  | JObj "(string \<times> json) list"

text \<open>
  \<^verbatim>\<open>json.Marshal\<close> on a dynamic value. \<open>None\<close> is the encoder's error: a channel has
  no JSON form (\<^verbatim>\<open>UnsupportedTypeError\<close>), nor have NaN and the infinities
  (\<^verbatim>\<open>UnsupportedValueError\<close>), and a container fails when an element does. A nil
  slice or map is \<^verbatim>\<open>null\<close>. The members of a map come in the order of its keys.
  Strings and keys are written with \<open>to_valid_utf8\<close>.
\<close>

fun member_opt :: "'k \<times> 'v option \<Rightarrow> ('k \<times> 'v) option" where
  "member_opt (k, None) = None"
| "member_opt (k, Some j) = Some (k, j)"

definition marshal_float64 :: "float64 \<Rightarrow> json option" where
  "marshal_float64 f =
     (case f of
        Finite q \<Rightarrow> Some (JNum (FormatFloat q))
      | NegZero \<Rightarrow> Some JNegZero
      | _ \<Rightarrow> None)"

primrec json_Marshal :: "go_value \<Rightarrow> json option" where
  "json_Marshal GoNil = Some JNull"
| "json_Marshal (GoBool b) = Some (JBool b)"
| "json_Marshal (GoInt n) = Some (JNum (of_int n))"
| "json_Marshal (GoFloat64 f) = marshal_float64 f"
| "json_Marshal (GoString s) = Some (JStr (to_valid_utf8 s))"
| "json_Marshal (GoSlice vs) = map_option JArr (those (map json_Marshal vs))"
| "json_Marshal GoNilSlice = Some JNull"
| "json_Marshal (GoMap kvs) =
     map_option JObj
       (those (map member_opt
          (map (apfst to_valid_utf8) (canonical (map (map_prod id json_Marshal) kvs)))))"
| "json_Marshal GoNilMap = Some JNull"
| "json_Marshal (GoMapString kvs) =
     Some (JObj (map (map_prod to_valid_utf8 (\<lambda>v. JStr (to_valid_utf8 v))) (canonical kvs)))"
| "json_Marshal GoNilMapString = Some JNull"
| "json_Marshal (GoChan c) = None"

text \<open>
  \<^verbatim>\<open>json.Unmarshal\<close> into an \<^verbatim>\<open>interface{}\<close>: the decoder stores \<^verbatim>\<open>nil\<close>, \<^verbatim>\<open>bool\<close>,
  \<^verbatim>\<open>float64\<close> for every number, \<^verbatim>\<open>string\<close>, \<^verbatim>\<open>[]interface{}\<close> and
  \<^verbatim>\<open>map[string]interface{}\<close>, whatever the type of the value that was encoded. \<open>None\<close>
  is the decoder's error, for a number outside the range of float64.
\<close>

primrec json_Unmarshal_interface :: "json \<Rightarrow> go_value option" where
  "json_Unmarshal_interface JNull = Some GoNil"
| "json_Unmarshal_interface (JBool b) = Some (GoBool b)"
| "json_Unmarshal_interface (JNum q) = map_option GoFloat64 (ParseFloat q)"
| "json_Unmarshal_interface JNegZero = Some (GoFloat64 NegZero)"
| "json_Unmarshal_interface (JStr s) = Some (GoString (to_valid_utf8 s))"
| "json_Unmarshal_interface (JArr js) =
     map_option GoSlice (those (map json_Unmarshal_interface js))"
| "json_Unmarshal_interface (JObj ms) =
     map_option (\<lambda>kvs. GoMap (canonical (map (apfst to_valid_utf8) kvs)))
       (those (map member_opt (map (map_prod id json_Unmarshal_interface) ms)))"

section \<open>Formatting\<close>

text \<open>
  \<^verbatim>\<open>%v\<close> of fmt on a dynamic value: a string is printed as it is, an integer in
  decimal, a boolean as \<^verbatim>\<open>true\<close> or \<^verbatim>\<open>false\<close>, nil as \<^verbatim>\<open><nil>\<close>. The printer of the
  remaining dynamic types (floats, containers, channels) is the parameter \<open>other\<close>.
\<close>

definition fmt_v :: "(go_value \<Rightarrow> string) \<Rightarrow> go_value \<Rightarrow> string" where
  "fmt_v other v =
     (case v of
        GoString s \<Rightarrow> s
      | GoInt n \<Rightarrow> fmt_d n
      | GoBool b \<Rightarrow> (if b then ''true'' else ''false'')
      | GoNil \<Rightarrow> ''<nil>''
      | _ \<Rightarrow> other v)"

section \<open>The runtime: clock and call stack\<close>

text \<open>
  \<^verbatim>\<open>runtime.Frame\<close>, with the three fields the package reads. The zero frame is what
  \<^verbatim>\<open>Frames.Next\<close> returns when there is no frame at all.
\<close>

record Frame =
  Function :: string
  File :: string
  Line :: int

definition zero_Frame :: Frame where
  "zero_Frame = \<lparr>Function = [], File = [], Line = 0\<rparr>"

text \<open>
  What the package asks of its runtime: \<open>Now\<close> is the reading of \<^verbatim>\<open>time.Now()\<close> in
  nanoseconds since the Unix epoch, \<open>FormatTime\<close> is \<^verbatim>\<open>Time.Format\<close> with the layout
  of NewAppError, \<open>FormatValue\<close> is the printer \<open>fmt_v\<close> delegates to. \<open>Stack\<close> is the
  goroutine's stack as \<^verbatim>\<open>runtime.Callers\<close> numbers it inside a helper of NewAppError:
  entry 0 is \<^verbatim>\<open>runtime.Callers\<close>, entry 1 the helper, entry 2 NewAppError, entry 3 the
  caller of NewAppError, and so on outwards.
\<close>

record runtime =
  Now :: int
  Stack :: "Frame list"
  FormatTime :: "int \<Rightarrow> string"
  FormatValue :: "go_value \<Rightarrow> string"

definition time_Unix :: "int \<Rightarrow> int" where
  "time_Unix t = t div 1000000000"


text \<open>
  \<^verbatim>\<open>runtime.Callers(skip, pc)\<close> fills \<open>pc\<close>, of length \<open>n\<close>, with the entries after
  the first \<open>skip\<close>; \<^verbatim>\<open>runtime.CallersFrames(pc[:n])\<close> iterates over them.
\<close>

definition runtime_Callers :: "nat \<Rightarrow> nat \<Rightarrow> Frame list \<Rightarrow> Frame list" where
  "runtime_Callers skip n stack = take n (drop skip stack)"

section \<open>The error record\<close>

text \<open>
  \<^verbatim>\<open>AppError\<close>: the seven fields of the struct declaration, then the five that the
  composite literal of NewAppError assigns and the declaration does not list
  (strings, by what is assigned to them). A nil slice is the empty list, a nil
  interface is \<open>GoNil\<close>.
\<close>

record AppError =
  Code :: ErrorCode
  Message :: string
  Timestamp :: int
  Module :: string
  Trace :: "string list"
  Details :: go_value
  RequestID :: string
  HumanReadableTime :: string
  Priority :: string
  ErrorCode :: string
  ErrorType :: string
  UserID :: string

text \<open>\<^verbatim>\<open>isSystemFrame\<close>: the loop over the prefixes returns at the first match.\<close>

definition systemPrefixes :: "string list" where
  "systemPrefixes =
     [''runtime.'', ''reflect.'', ''blerrors.'', ''net/http.'', ''github.com/gorilla/mux.'']"

fun has_system_prefix :: "string list \<Rightarrow> string \<Rightarrow> bool" where
  "has_system_prefix [] function = False"
| "has_system_prefix (prefix # prefixes) function =
     (if length function > length prefix \<and> take (length prefix) function = prefix then True
      else has_system_prefix prefixes function)"

definition isSystemFrame :: "string \<Rightarrow> bool" where
  "isSystemFrame function = has_system_prefix systemPrefixes function"

text \<open>
  \<^verbatim>\<open>getStackTrace\<close>. \<open>render_frame\<close> is the \<^verbatim>\<open>Sprintf("%s:%d %s", ...)\<close> of the loop
  body and \<open>trace_step\<close> the body's first statement. \<open>trace_loop\<close> is the loop over
  \<^verbatim>\<open>frames.Next()\<close>: on no frame at all \<^verbatim>\<open>Next\<close> returns the zero frame and
  \<^verbatim>\<open>more = false\<close>, on the last frame \<^verbatim>\<open>more = false\<close>, otherwise \<^verbatim>\<open>more = true\<close>.
\<close>

definition render_frame :: "Frame \<Rightarrow> string" where
  "render_frame frame = File frame @ '':'' @ fmt_d (Line frame) @ '' '' @ Function frame"

definition trace_step :: "Frame \<Rightarrow> string list \<Rightarrow> string list" where
  "trace_step frame trace =
     (if \<not> isSystemFrame (Function frame) then trace @ [render_frame frame] else trace)"

fun trace_loop :: "Frame list \<Rightarrow> string list \<Rightarrow> string list" where
  "trace_loop [] trace = trace_step zero_Frame trace"
| "trace_loop [frame] trace = trace_step frame trace"
| "trace_loop (frame # next # frames) trace =
     (let trace' = trace_step frame trace
      in if length trace' \<ge> 10 then trace' else trace_loop (next # frames) trace')"

definition getStackTrace :: "Frame list \<Rightarrow> string list" where
  "getStackTrace stack = trace_loop (runtime_Callers 3 15 stack) []"

text \<open>
  \<^verbatim>\<open>extractModuleName\<close>. \<open>split_step\<close> is the body of the loop over the characters,
  on the pair of \<^verbatim>\<open>parts\<close> and \<^verbatim>\<open>current\<close>; \<open>last_significant\<close> is the second loop,
  from the last part down to the first.
\<close>

definition split_step :: "string list \<times> string \<Rightarrow> char \<Rightarrow> string list \<times> string" where
  "split_step st r =
     (case st of (parts, current) \<Rightarrow>
        if r = CHR ''/'' \<or> r = CHR ''.'' then
          (if current \<noteq> [] then (parts @ [current], []) else (parts, current))
        else (parts, current @ [r]))"

definition split_parts :: "string \<Rightarrow> string list" where
  "split_parts function =
     (case foldl split_step ([], []) function of (parts, current) \<Rightarrow>
        if current \<noteq> [] then parts @ [current] else parts)"

fun last_significant :: "string list \<Rightarrow> string" where
  "last_significant [] = ''unknown''"
| "last_significant (part # below) =
     (if length part > 0 \<and> part \<noteq> ''internal'' \<and> part \<noteq> ''pkg'' then part
      else last_significant below)"

definition extractModuleName :: "string \<Rightarrow> string" where
  "extractModuleName function = last_significant (rev (split_parts function))"

text \<open>
  \<^verbatim>\<open>getCurrentModule\<close>: with \<open>n > 0\<close> frames captured, the first frame is used when
  \<^verbatim>\<open>Next\<close> reports \<^verbatim>\<open>more\<close>, that is, when a second frame follows it.
\<close>

definition getCurrentModule :: "Frame list \<Rightarrow> string" where
  "getCurrentModule stack =
     (case runtime_Callers 3 5 stack of
        [] \<Rightarrow> ''unknown''
      | [frame] \<Rightarrow> ''unknown''
      | frame # next # frames \<Rightarrow> extractModuleName (Function frame))"

text \<open>\<^verbatim>\<open>NewAppError\<close>, with the six parameters of the source.\<close>

definition NewAppError ::
  "runtime \<Rightarrow> ErrorCode \<Rightarrow> string \<Rightarrow> string \<Rightarrow> string \<Rightarrow> string \<Rightarrow> string \<Rightarrow> AppError" where
  "NewAppError rt code message priority errorCode errorType userID =
     (let now = Now rt in
      \<lparr>Code = code,
       Message = message,
       Timestamp = time_Unix now,
       Module = getCurrentModule (Stack rt),
       Trace = getStackTrace (Stack rt),
       Details = GoNil,
       RequestID = [],
       HumanReadableTime = FormatTime rt now,
       Priority = priority,
       ErrorCode = errorCode,
       ErrorType = errorType,
       UserID = userID\<rparr>)"

text \<open>
  The builders. The source assigns through the pointer and returns it; the model
  returns the updated record. \<^verbatim>\<open>e.Trace = nil\<close> is the empty list.
\<close>

definition WithModule :: "string \<Rightarrow> AppError \<Rightarrow> AppError" where
  "WithModule name e = e\<lparr>Module := name\<rparr>"

definition WithDetails :: "go_value \<Rightarrow> AppError \<Rightarrow> AppError" where
  "WithDetails details e = e\<lparr>Details := details\<rparr>"

definition WithRequestID :: "string \<Rightarrow> AppError \<Rightarrow> AppError" where
  "WithRequestID requestID e = e\<lparr>RequestID := requestID\<rparr>"

definition WithoutTrace :: "AppError \<Rightarrow> AppError" where
  "WithoutTrace e = e\<lparr>Trace := []\<rparr>"

text \<open>\<^verbatim>\<open>Error()\<close>: \<^verbatim>\<open>Sprintf("[%s] %s", e.Code, e.Message)\<close>.\<close>

definition Error_string :: "AppError \<Rightarrow> string" where
  "Error_string e = ''['' @ Code e @ ''] '' @ Message e"

text \<open>A chain of builder calls, applied from left to right.\<close>

datatype builder_call =
    CallWithModule string
  | CallWithDetails go_value
  | CallWithRequestID string

fun apply_call :: "builder_call \<Rightarrow> AppError \<Rightarrow> AppError" where
  "apply_call (CallWithModule name) e = WithModule name e"
| "apply_call (CallWithDetails details) e = WithDetails details e"
| "apply_call (CallWithRequestID requestID) e = WithRequestID requestID e"

fun apply_calls :: "builder_call list \<Rightarrow> AppError \<Rightarrow> AppError" where
  "apply_calls [] e = e"
| "apply_calls (c # cs) e = apply_calls cs (apply_call c e)"

section \<open>The wire format\<close>

text \<open>
  The JSON object of an \<^verbatim>\<open>AppError\<close>, by the tags of the struct declaration, in
  declaration order: \<^verbatim>\<open>code\<close>, \<^verbatim>\<open>message\<close> and \<^verbatim>\<open>timestamp\<close> always; \<^verbatim>\<open>module\<close>,
  \<^verbatim>\<open>trace\<close>, \<^verbatim>\<open>details\<close> and \<^verbatim>\<open>request_id\<close> are \<^verbatim>\<open>omitempty\<close>: left out for the
  empty string, the slice of length 0 and the nil interface. The five fields that
  only the literal of NewAppError names have no tag in the sources and take no part.
  The encoding fails when that of the details does.
\<close>

definition marshal_AppError :: "AppError \<Rightarrow> json option" where
  "marshal_AppError e =
     (case (if Details e = GoNil then Some []
            else map_option (\<lambda>j. [(''details'', j)]) (json_Marshal (Details e))) of
        None \<Rightarrow> None
      | Some details \<Rightarrow>
          Some (JObj
            ([(''code'', JStr (to_valid_utf8 (Code e))),
              (''message'', JStr (to_valid_utf8 (Message e))),
              (''timestamp'', JNum (of_int (Timestamp e)))]
             @ (if Module e = [] then []
                else [(''module'', JStr (to_valid_utf8 (Module e)))])
             @ (if Trace e = [] then []
                else [(''trace'', JArr (map (\<lambda>t. JStr (to_valid_utf8 t)) (Trace e)))])
             @ details
             @ (if RequestID e = [] then []
                else [(''request_id'', JStr (to_valid_utf8 (RequestID e)))]))))"

text \<open>
  \<^verbatim>\<open>ErrorResponse{Success, Error}\<close> with \<^verbatim>\<open>Error\<close> a pointer (\<open>None\<close> is nil), and
  \<^verbatim>\<open>SuccessResponse{Success, Data}\<close> with \<^verbatim>\<open>Data\<close> tagged \<^verbatim>\<open>omitempty\<close>.
\<close>

datatype ErrorResponse = ErrorResponse bool "AppError option"

datatype SuccessResponse = SuccessResponse bool go_value

fun marshal_ErrorResponse :: "ErrorResponse \<Rightarrow> json option" where
  "marshal_ErrorResponse (ErrorResponse success None) =
     Some (JObj [(''success'', JBool success), (''error'', JNull)])"
| "marshal_ErrorResponse (ErrorResponse success (Some err)) =
     (case marshal_AppError err of
        None \<Rightarrow> None
      | Some j \<Rightarrow> Some (JObj [(''success'', JBool success), (''error'', j)]))"

fun marshal_SuccessResponse :: "SuccessResponse \<Rightarrow> json option" where
  "marshal_SuccessResponse (SuccessResponse success data) =
     (if data = GoNil then Some (JObj [(''success'', JBool success)])
      else (case json_Marshal data of
              None \<Rightarrow> None
            | Some j \<Rightarrow> Some (JObj [(''success'', JBool success), (''data'', j)])))"

text \<open>
  Decoding. \<open>None\<close> is the decoder's error (a member of the wrong JSON type, or a
  number that is no int64). A string is read with \<open>to_valid_utf8\<close>. The name of a
  member is matched with the names of the fields by \<open>names_match\<close>; a member the
  struct has no field for is skipped, a \<^verbatim>\<open>null\<close> leaves a string, number or boolean
  as it was and makes a slice, interface or pointer nil, and a later member for the
  same field overwrites an earlier one.
\<close>

fun unmarshal_string :: "json \<Rightarrow> string \<Rightarrow> string option" where
  "unmarshal_string (JStr s) cur = Some (to_valid_utf8 s)"
| "unmarshal_string JNull cur = Some cur"
| "unmarshal_string _ cur = None"

fun unmarshal_int64 :: "json \<Rightarrow> int \<Rightarrow> int option" where
  "unmarshal_int64 (JNum q) cur =
     (if of_int \<lfloor>q\<rfloor> = q \<and> is_int64 \<lfloor>q\<rfloor> then Some \<lfloor>q\<rfloor> else None)"
| "unmarshal_int64 JNegZero cur = Some 0"
| "unmarshal_int64 JNull cur = Some cur"
| "unmarshal_int64 _ cur = None"

fun unmarshal_bool :: "json \<Rightarrow> bool \<Rightarrow> bool option" where
  "unmarshal_bool (JBool b) cur = Some b"
| "unmarshal_bool JNull cur = Some cur"
| "unmarshal_bool _ cur = None"

fun unmarshal_strings :: "json \<Rightarrow> string list option" where
  "unmarshal_strings (JArr js) = those (map (\<lambda>j. unmarshal_string j []) js)"
| "unmarshal_strings JNull = Some []"
| "unmarshal_strings _ = None"

definition zero_AppError :: AppError where
  "zero_AppError =
     \<lparr>Code = [], Message = [], Timestamp = 0, Module = [], Trace = [], Details = GoNil,
      RequestID = [], HumanReadableTime = [], Priority = [], ErrorCode = [],
      ErrorType = [], UserID = []\<rparr>"

fun unmarshal_field :: "string \<times> json \<Rightarrow> AppError \<Rightarrow> AppError option" where
  "unmarshal_field (k, j) e =
     (if names_match (to_valid_utf8 k) ''code'' then
        map_option (\<lambda>s. e\<lparr>Code := s\<rparr>) (unmarshal_string j (Code e))
      else if names_match (to_valid_utf8 k) ''message'' then
        map_option (\<lambda>s. e\<lparr>Message := s\<rparr>) (unmarshal_string j (Message e))
      else if names_match (to_valid_utf8 k) ''timestamp'' then
        map_option (\<lambda>n. e\<lparr>Timestamp := n\<rparr>) (unmarshal_int64 j (Timestamp e))
      else if names_match (to_valid_utf8 k) ''module'' then
        map_option (\<lambda>s. e\<lparr>Module := s\<rparr>) (unmarshal_string j (Module e))
      else if names_match (to_valid_utf8 k) ''trace'' then
        map_option (\<lambda>t. e\<lparr>Trace := t\<rparr>) (unmarshal_strings j)
      else if names_match (to_valid_utf8 k) ''details'' then
        map_option (\<lambda>d. e\<lparr>Details := d\<rparr>) (json_Unmarshal_interface j)
      else if names_match (to_valid_utf8 k) ''request_id'' then
        map_option (\<lambda>s. e\<lparr>RequestID := s\<rparr>) (unmarshal_string j (RequestID e))
      else Some e)"

fun unmarshal_fields :: "(string \<times> json) list \<Rightarrow> AppError \<Rightarrow> AppError option" where
  "unmarshal_fields [] e = Some e"
| "unmarshal_fields (m # ms) e =
     (case unmarshal_field m e of None \<Rightarrow> None | Some e' \<Rightarrow> unmarshal_fields ms e')"

fun unmarshal_AppError :: "json \<Rightarrow> AppError \<Rightarrow> AppError option" where
  "unmarshal_AppError (JObj ms) e = unmarshal_fields ms e"
| "unmarshal_AppError JNull e = Some e"
| "unmarshal_AppError _ e = None"

fun unmarshal_envelope_member :: "string \<times> json \<Rightarrow> ErrorResponse \<Rightarrow> ErrorResponse option" where
  "unmarshal_envelope_member (k, j) (ErrorResponse success err) =
     (if names_match (to_valid_utf8 k) ''success'' then
        map_option (\<lambda>b. ErrorResponse b err) (unmarshal_bool j success)
      else if names_match (to_valid_utf8 k) ''error'' then
        (if j = JNull then Some (ErrorResponse success None)
         else map_option (\<lambda>e. ErrorResponse success (Some e))
                (unmarshal_AppError j (case err of None \<Rightarrow> zero_AppError | Some e \<Rightarrow> e)))
      else Some (ErrorResponse success err))"

fun unmarshal_envelope_members ::
  "(string \<times> json) list \<Rightarrow> ErrorResponse \<Rightarrow> ErrorResponse option" where
  "unmarshal_envelope_members [] r = Some r"
| "unmarshal_envelope_members (m # ms) r =
     (case unmarshal_envelope_member m r of
        None \<Rightarrow> None
      | Some r' \<Rightarrow> unmarshal_envelope_members ms r')"

fun unmarshal_ErrorResponse :: "json \<Rightarrow> ErrorResponse option" where
  "unmarshal_ErrorResponse (JObj ms) = unmarshal_envelope_members ms (ErrorResponse False None)"
| "unmarshal_ErrorResponse JNull = Some (ErrorResponse False None)"
| "unmarshal_ErrorResponse _ = None"

text \<open>
  A well-formed dynamic value: an \<^verbatim>\<open>int\<close> within 64 bits, a finite float64 that is
  a float64 (\<open>ParseFloat\<close> gives it back), a map with its entries in canonical form.
\<close>

definition is_float64 :: "float64 \<Rightarrow> bool" where
  "is_float64 f = (case f of Finite q \<Rightarrow> ParseFloat q = Some (Finite q) | _ \<Rightarrow> True)"

primrec well_formed :: "go_value \<Rightarrow> bool" where
  "well_formed GoNil = True"
| "well_formed (GoBool b) = True"
| "well_formed (GoInt n) = is_int64 n"
| "well_formed (GoFloat64 f) = is_float64 f"
| "well_formed (GoString s) = True"
| "well_formed (GoSlice vs) = list_all id (map well_formed vs)"
| "well_formed GoNilSlice = True"
| "well_formed (GoMap kvs) =
     (sorted_wrt (<) (map fst kvs)
      \<and> list_all id (map snd (map (map_prod id well_formed) kvs)))"
| "well_formed GoNilMap = True"
| "well_formed (GoMapString kvs) = sorted_wrt (<) (map fst kvs)"
| "well_formed GoNilMapString = True"
| "well_formed (GoChan c) = True"

text \<open>
  The dynamic values that decoding into an \<^verbatim>\<open>interface{}\<close> produces: nil, a bool,
  a finite float64 or negative zero, a string of valid UTF-8, and slices and
  string-keyed maps of such values that are not nil, the keys valid UTF-8 too.
\<close>

definition finite_float64 :: "float64 \<Rightarrow> bool" where
  "finite_float64 f =
     (case f of Finite q \<Rightarrow> ParseFloat q = Some (Finite q) | NegZero \<Rightarrow> True | _ \<Rightarrow> False)"

primrec json_native :: "go_value \<Rightarrow> bool" where
  "json_native GoNil = True"
| "json_native (GoBool b) = True"
| "json_native (GoInt n) = False"
| "json_native (GoFloat64 f) = finite_float64 f"
| "json_native (GoString s) = valid_utf8 s"
| "json_native (GoSlice vs) = list_all id (map json_native vs)"
| "json_native GoNilSlice = False"
| "json_native (GoMap kvs) =
     (sorted_wrt (<) (map fst kvs) \<and> list_all valid_utf8 (map fst kvs)
      \<and> list_all id (map snd (map (map_prod id json_native) kvs)))"
| "json_native GoNilMap = False"
| "json_native (GoMapString kvs) = False"
| "json_native GoNilMapString = False"
| "json_native (GoChan c) = False"

section \<open>The response sink\<close>

text \<open>
  The \<^verbatim>\<open>http.ResponseWriter\<close> the package writes to, with the behaviour of
  \<^verbatim>\<open>httptest.ResponseRecorder\<close> and of the server's own writer: the header map can be
  changed at any time, but the first \<^verbatim>\<open>WriteHeader\<close> fixes the status and the headers
  that are sent; a later \<^verbatim>\<open>WriteHeader\<close> is ignored; a \<^verbatim>\<open>Write\<close> before any
  \<^verbatim>\<open>WriteHeader\<close> sends status 200 first. The body is the sequence of lines written:
  a JSON document (the encoder ends it with a newline) or a line of text. Writes to
  the recorder do not fail; its guess of a Content-Type for a body written without
  one is not modelled.
\<close>

datatype chunk = JSONLine json | TextLine string

record ResponseWriter =
  header :: "string \<rightharpoonup> string"
  wroteHeader :: bool
  status :: int
  sentHeader :: "string \<rightharpoonup> string"
  body :: "chunk list"

definition NewRecorder :: ResponseWriter where
  "NewRecorder =
     \<lparr>header = Map.empty, wroteHeader = False, status = 200, sentHeader = Map.empty,
      body = []\<rparr>"

definition Header_Set :: "string \<Rightarrow> string \<Rightarrow> ResponseWriter \<Rightarrow> ResponseWriter" where
  "Header_Set k v w = w\<lparr>header := (header w)(k \<mapsto> v)\<rparr>"

definition WriteHeader :: "int \<Rightarrow> ResponseWriter \<Rightarrow> ResponseWriter" where
  "WriteHeader code w =
     (if wroteHeader w then w
      else w\<lparr>wroteHeader := True, status := code, sentHeader := header w\<rparr>)"

definition Write :: "chunk \<Rightarrow> ResponseWriter \<Rightarrow> ResponseWriter" where
  "Write c w =
     (let w' = (if wroteHeader w then w else WriteHeader StatusOK w)
      in w'\<lparr>body := body w' @ [c]\<rparr>)"

text \<open>
  \<^verbatim>\<open>json.NewEncoder(w).Encode(v)\<close>: the value is encoded first; on an encoding error
  nothing is written and the error is returned (\<open>True\<close>), otherwise the document is
  written as one line.
\<close>

definition Encode :: "json option \<Rightarrow> ResponseWriter \<Rightarrow> bool \<times> ResponseWriter" where
  "Encode doc w = (case doc of None \<Rightarrow> (True, w) | Some j \<Rightarrow> (False, Write (JSONLine j) w))"

text \<open>
  \<^verbatim>\<open>http.Error(w, error, code)\<close>: sets the two headers, calls \<^verbatim>\<open>WriteHeader(code)\<close>
  and prints the message as a line.
\<close>

definition http_Error :: "ResponseWriter \<Rightarrow> string \<Rightarrow> int \<Rightarrow> ResponseWriter" where
  "http_Error w error code =
     Write (TextLine error)
       (WriteHeader code
          (Header_Set ''X-Content-Type-Options'' ''nosniff''
             (Header_Set ''Content-Type'' ''text/plain; charset=utf-8'' w)))"

section \<open>The writers of http.go\<close>

definition WriteErrorResponse :: "ResponseWriter \<Rightarrow> AppError \<Rightarrow> ResponseWriter" where
  "WriteErrorResponse w err =
     (let w1 = Header_Set ''Content-Type'' ''application/json'' w;
          w2 = WriteHeader (getHTTPStatusCode (Code err)) w1;
          response = ErrorResponse False (Some err)
      in case Encode (marshal_ErrorResponse response) w2 of
           (encodeErr, w3) \<Rightarrow>
             if encodeErr then http_Error w3 ''Internal server error'' StatusInternalServerError
             else w3)"

definition WriteSuccessResponse :: "ResponseWriter \<Rightarrow> go_value \<Rightarrow> ResponseWriter" where
  "WriteSuccessResponse w data =
     (let w1 = Header_Set ''Content-Type'' ''application/json'' w;
          w2 = WriteHeader StatusOK w1;
          response = SuccessResponse True data
      in snd (Encode (marshal_SuccessResponse response) w2))"

section \<open>The middlewares\<close>

text \<open>
  A request carries its context: the values attached by \<^verbatim>\<open>context.WithValue\<close>, the
  innermost first; \<^verbatim>\<open>Value\<close> returns nil for a key that is not there. A handler
  either returns, leaving the sink as it wrote it, or panics with a value, leaving
  the sink as it had written it until then. The value is what \<^verbatim>\<open>recover()\<close> returns
  in a deferred call.
\<close>

type_synonym Context = "(string \<times> go_value) list"



record Request =
  Method :: string
  URL :: string
  Ctx :: Context

datatype outcome = Returned ResponseWriter | Panicked go_value ResponseWriter

type_synonym Handler = "ResponseWriter \<Rightarrow> Request \<Rightarrow> outcome"

text \<open>
  Modelled from the spec: http.go calls the constructor with two arguments and
  chains \<^verbatim>\<open>IsCritical()\<close>, \<^verbatim>\<open>WithErrorCode("FS001")\<close>, \<^verbatim>\<open>IsSystemError()\<close> and
  \<^verbatim>\<open>WithUserID("system")\<close>; neither that constructor nor these four builders are in
  the sources. By section 4.1, create(kind, message) returns the record of
  NewAppError with its optional fields empty, and a builder overwrites one field and
  returns the record: here the field its name refers to, among those that the
  six-argument NewAppError takes as arguments. The values that \<^verbatim>\<open>IsCritical\<close> and
  \<^verbatim>\<open>IsSystemError\<close> write are not known: they are parameters.
\<close>

definition create :: "runtime \<Rightarrow> ErrorCode \<Rightarrow> string \<Rightarrow> AppError" where
  "create rt code message = NewAppError rt code message [] [] [] []"

definition IsCritical :: "string \<Rightarrow> AppError \<Rightarrow> AppError" where
  "IsCritical critical e = e\<lparr>Priority := critical\<rparr>"

definition WithErrorCode :: "string \<Rightarrow> AppError \<Rightarrow> AppError" where
  "WithErrorCode errorCode e = e\<lparr>ErrorCode := errorCode\<rparr>"

definition IsSystemError :: "string \<Rightarrow> AppError \<Rightarrow> AppError" where
  "IsSystemError system e = e\<lparr>ErrorType := system\<rparr>"

definition WithUserID :: "string \<Rightarrow> AppError \<Rightarrow> AppError" where
  "WithUserID userID e = e\<lparr>UserID := userID\<rparr>"

text \<open>
  \<^verbatim>\<open>ErrorRecoveryMiddleware\<close>. The deferred function runs on both ways out of
  \<^verbatim>\<open>next.ServeHTTP\<close>; \<^verbatim>\<open>recover()\<close> is nil when the handler returned, and the panic
  stops at the deferred function whatever its value. \<open>rt\<close> is the runtime as the
  deferred function finds it.
\<close>

definition recovered_error :: "runtime \<Rightarrow> string \<Rightarrow> string \<Rightarrow> go_value \<Rightarrow> AppError" where
  "recovered_error rt critical system err =
     WithModule ''middleware''
       (WithDetails (GoString (''Panic recovered: '' @ fmt_v (FormatValue rt) err))
          (WithUserID ''system''
             (IsSystemError system
                (WithErrorCode ''FS001''
                   (IsCritical critical
                      (create rt ErrCodeInternal ''Internal server error''))))))"

definition ErrorRecoveryMiddleware :: "runtime \<Rightarrow> string \<Rightarrow> string \<Rightarrow> Handler \<Rightarrow> Handler" where
  "ErrorRecoveryMiddleware rt critical system next w r =
     (case next w r of
        Returned w' \<Rightarrow> Returned w'
      | Panicked err w' \<Rightarrow>
          if err \<noteq> GoNil then
            Returned (WriteErrorResponse w' (recovered_error rt critical system err))
          else Returned w')"



section \<open>Notions of the specification\<close>

text \<open>
  A frame is informative when \<open>isSystemFrame\<close> does not reject its function name.
\<close>

definition informative :: "Frame \<Rightarrow> bool" where
  "informative frame = (\<not> isSystemFrame (Function frame))"

text \<open>
  The deny-list of the specification: a frame is skipped when its function name
  starts with a prefix of the list.
\<close>

definition deny_listed :: "string \<Rightarrow> bool" where
  "deny_listed fn = (\<exists>p \<in> set systemPrefixes. take (length p) fn = p)"

text \<open>
  The splitting that the specification of module inference speaks of, written
  without the loop's accumulators: the segments of a name are its maximal non-empty
  runs of characters other than the separators \<^verbatim>\<open>/\<close> and \<^verbatim>\<open>.\<close>, from left to right.
  The generic wrapper names are \<^verbatim>\<open>internal\<close> and \<^verbatim>\<open>pkg\<close>.
\<close>

definition is_separator :: "char \<Rightarrow> bool" where
  "is_separator c = (c = CHR ''/'' \<or> c = CHR ''.'')"

fun segments :: "string \<Rightarrow> string list" where
  "segments [] = []"
| "segments (c # cs) =
     (if is_separator c then segments cs
      else if cs = [] \<or> is_separator (hd cs) then [c] # segments cs
      else (case segments cs of [] \<Rightarrow> [[c]] | p # ps \<Rightarrow> (c # p) # ps))"

definition generic_wrapper :: "string \<Rightarrow> bool" where
  "generic_wrapper part = (part = ''internal'' \<or> part = ''pkg'')"

text \<open>
  Module inference as the specification words it: the first frame above the
  record-construction frame that the deny-list does not skip, and of its function
  name the last segment that is not a generic wrapper name; \<^verbatim>\<open>unknown\<close> when there
  is no such frame or no such segment.
\<close>

definition first_non_skipped :: "Frame list \<Rightarrow> Frame option" where
  "first_non_skipped stack = find (\<lambda>frame. \<not> deny_listed (Function frame)) (drop 3 stack)"

definition spec_module_inference :: "Frame list \<Rightarrow> string" where
  "spec_module_inference stack =
     (case first_non_skipped stack of
        None \<Rightarrow> ''unknown''
      | Some frame \<Rightarrow>
          (case filter (\<lambda>p. \<not> generic_wrapper p) (rev (segments (Function frame))) of
             [] \<Rightarrow> ''unknown''
           | p # _ \<Rightarrow> p))"


text \<open>
  The envelope that the recovery wrapper is to write for a recovered value: the record
  with code, message, timestamp, module, the trace when there is one, and the details,
  the strings as the encoder writes them.
\<close>

definition recovered_object :: "runtime \<Rightarrow> go_value \<Rightarrow> json" where
  "recovered_object rt err =
     JObj ([(''code'', JStr ''INTERNAL_ERROR''),
            (''message'', JStr ''Internal server error''),
            (''timestamp'', JNum (of_int (time_Unix (Now rt)))),
            (''module'', JStr ''middleware'')]
           @ (if getStackTrace (Stack rt) = [] then []
              else [(''trace'',
                     JArr (map (\<lambda>t. JStr (to_valid_utf8 t)) (getStackTrace (Stack rt))))])
           @ [(''details'',
               JStr (to_valid_utf8 (''Panic recovered: '' @ fmt_v (FormatValue rt) err)))])"

definition recovered_document :: "runtime \<Rightarrow> go_value \<Rightarrow> json" where
  "recovered_document rt err =
     JObj [(''success'', JBool False), (''error'', recovered_object rt err)]"

section \<open>Example inputs\<close>

text \<open>
  Stacks as \<open>Stack\<close> numbers them: the three frames that every capture skips, then
  the caller of NewAppError and the frames below it. \<open>short_stack\<close> is a handler
  called by net/http; \<open>deep_stack\<close> is a handler behind six wrappers, each called
  through \<^verbatim>\<open>net/http.HandlerFunc.ServeHTTP\<close>, with ten frames of the application in
  all: nine among the first 15 frames after the skipped ones, and \<^verbatim>\<open>main.main\<close>
  as the 16th.
\<close>

definition frame_of :: "string \<Rightarrow> Frame" where
  "frame_of function = \<lparr>Function = function, File = ''app.go'', Line = 42\<rparr>"

definition inner_frames :: "Frame list" where
  "inner_frames =
     map frame_of [''runtime.Callers'', ''blerrors.getStackTrace'', ''blerrors.NewAppError'']"

definition deep_stack :: "Frame list" where
  "deep_stack = inner_frames @ map frame_of
     [''main.h1'', ''net/http.HandlerFunc.ServeHTTP'',
      ''main.h2'', ''net/http.HandlerFunc.ServeHTTP'',
      ''main.h3'', ''net/http.HandlerFunc.ServeHTTP'',
      ''main.h4'', ''net/http.HandlerFunc.ServeHTTP'',
      ''main.h5'', ''net/http.HandlerFunc.ServeHTTP'',
      ''main.h6'', ''net/http.HandlerFunc.ServeHTTP'',
      ''main.h7'', ''main.h8'', ''main.h9'', ''main.main'',
      ''runtime.main'', ''runtime.goexit'']"

text \<open>
  The stack of a constructor that is invoked through \<^verbatim>\<open>reflect.Value.Call\<close> from
  \<^verbatim>\<open>main.invoke\<close>.
\<close>

definition reflect_stack :: "Frame list" where
  "reflect_stack = inner_frames @ map frame_of
     [''reflect.Value.call'', ''reflect.Value.Call'', ''main.invoke'', ''main.main'',
      ''runtime.main'', ''runtime.goexit'']"

definition short_stack :: "Frame list" where
  "short_stack = inner_frames @ map frame_of
     [''main.Handler.GetUser'', ''net/http.HandlerFunc.ServeHTTP'', ''runtime.goexit'']"


definition example_runtime :: runtime where
  "example_runtime =
     \<lparr>Now = 1703123456789123456, Stack = short_stack, FormatTime = (\<lambda>t. []),
      FormatValue = (\<lambda>v. [])\<rparr>"

text \<open>
  A request, two handlers that panic with the value \<^verbatim>\<open>"Test panic"\<close> (at once, and
  after sending the header with status 200), and records: one whose details are a
  channel; the record of the package's test of \<^verbatim>\<open>WithDetails\<close>, whose details are
  \<^verbatim>\<open>map[string]interface{}{"user_id": 123}\<close>, with its wire form and what the
  decoder makes of it; and a record whose details are a map of strings to
  \<^verbatim>\<open>interface{}\<close>, with its wire form.
\<close>

fun sink_of :: "outcome \<Rightarrow> ResponseWriter" where
  "sink_of (Returned w) = w"
| "sink_of (Panicked err w) = w"

definition example_request :: Request where
  "example_request = \<lparr>Method = ''GET'', URL = ''/test'', Ctx = []\<rparr>"

definition panics_at_once :: Handler where
  "panics_at_once w r = Panicked (GoString ''Test panic'') w"

definition panics_after_header :: Handler where
  "panics_after_header w r = Panicked (GoString ''Test panic'') (WriteHeader StatusOK w)"

definition unencodable_error :: AppError where
  "unencodable_error =
     zero_AppError\<lparr>Code := ErrCodeNotFound, Message := ''Resource not found'',
       Timestamp := 1703123456, Details := GoChan 0\<rparr>"

definition login_error :: AppError where
  "login_error =
     zero_AppError\<lparr>Code := ErrCodeUnauthorized, Message := ''Unauthorized'',
       Timestamp := 1703123456, Details := GoMap [(''user_id'', GoInt 123)]\<rparr>"

definition login_error_json :: json where
  "login_error_json =
     JObj [(''code'', JStr ''UNAUTHORIZED''), (''message'', JStr ''Unauthorized''),
           (''timestamp'', JNum 1703123456),
           (''details'', JObj [(''user_id'', JNum 123)])]"

definition login_error_decoded :: AppError where
  "login_error_decoded =
     zero_AppError\<lparr>Code := ErrCodeUnauthorized, Message := ''Unauthorized'',
       Timestamp := 1703123456, Details := GoMap [(''user_id'', GoFloat64 (Finite 123))]\<rparr>"

definition validation_error :: AppError where
  "validation_error =
     zero_AppError\<lparr>Code := ErrCodeValidation, Message := ''Invalid input'',
       Timestamp := 1703123456, Module := ''user-service'',
       Details := GoMap [(''field'', GoString ''email'')], RequestID := ''req-123''\<rparr>"

definition validation_error_json :: json where
  "validation_error_json =
     JObj [(''code'', JStr ''VALIDATION_ERROR''), (''message'', JStr ''Invalid input''),
           (''timestamp'', JNum 1703123456), (''module'', JStr ''user-service''),
           (''details'', JObj [(''field'', JStr ''email'')]),
           (''request_id'', JStr ''req-123'')]"

section \<open>Facts about strings, numbers and maps on the wire\<close>

lemma byte_ascii: "byte c < 128 \<longleftrightarrow> \<not> digit7 c"
  by (cases c) (simp add: byte_def)

lemma rune_size_ascii: "\<not> digit7 c \<Longrightarrow> rune_size (c # cs) = 1"
  by (simp add: byte_ascii)

lemma coerce_from_ascii: "list_all (\<lambda>c. \<not> digit7 c) s \<Longrightarrow> coerce_from 0 s = s"
  by (induction s) (simp_all add: byte_ascii)

lemma to_valid_utf8_ascii: "list_all (\<lambda>c. \<not> digit7 c) s \<Longrightarrow> to_valid_utf8 s = s"
  by (simp add: to_valid_utf8_def coerce_from_ascii)

lemma valid_from_ascii: "list_all (\<lambda>c. \<not> digit7 c) s \<Longrightarrow> valid_from 0 s"
  by (induction s) (simp_all add: byte_ascii)

lemma valid_utf8_ascii: "list_all (\<lambda>c. \<not> digit7 c) s \<Longrightarrow> valid_utf8 s"
  by (simp add: valid_utf8_def valid_from_ascii)

lemma coerce_from_valid: "valid_from n s \<Longrightarrow> coerce_from n s = s"
  by (induction n s rule: coerce_from.induct)
    (auto simp del: rune_size.simps split: nat.splits)

lemma to_valid_utf8_valid: "valid_utf8 s \<Longrightarrow> to_valid_utf8 s = s"
  by (simp add: to_valid_utf8_def valid_utf8_def coerce_from_valid)

lemma upsert_last:
  "\<forall>k' \<in> set (map fst m). k' < k \<Longrightarrow> upsert k v m = m @ [(k, v)]"
  by (induction m) (auto simp: less_le_not_le)

lemma canonical_from_sorted:
  "sorted_wrt (<) (map fst (acc @ kvs)) \<Longrightarrow>
   foldl (\<lambda>m kv. upsert (fst kv) (snd kv) m) acc kvs = acc @ kvs"
proof (induction kvs arbitrary: acc)
  case Nil
  show ?case by simp
next
  case (Cons kv kvs)
  from Cons.prems have "\<forall>k' \<in> set (map fst acc). k' < fst kv"
    by (auto simp: sorted_wrt_append)
  then have "upsert (fst kv) (snd kv) acc = acc @ [kv]"
    by (simp add: upsert_last)
  moreover from Cons.prems have "sorted_wrt (<) (map fst ((acc @ [kv]) @ kvs))"
    by simp
  ultimately show ?case
    using Cons.IH [of "acc @ [kv]"] by simp
qed

lemma canonical_sorted: "sorted_wrt (<) (map fst kvs) \<Longrightarrow> canonical kvs = kvs"
  using canonical_from_sorted [of "[]" kvs] by (simp add: canonical_def)

section \<open>The status mapping\<close>

text \<open>
  C2. The status mapping is a total function of the code: each of the nine predeclared
  codes gets the status of the table (404, 400, 400, 401, 403, 409, 429, 503, 500), and
  every other string gets 500.
\<close>

theorem getHTTPStatusCode_table:
  "getHTTPStatusCode ErrCodeNotFound = 404
   \<and> getHTTPStatusCode ErrCodeValidation = 400
   \<and> getHTTPStatusCode ErrCodeBadRequest = 400
   \<and> getHTTPStatusCode ErrCodeUnauthorized = 401
   \<and> getHTTPStatusCode ErrCodeForbidden = 403
   \<and> getHTTPStatusCode ErrCodeConflict = 409
   \<and> getHTTPStatusCode ErrCodeTooManyRequests = 429
   \<and> getHTTPStatusCode ErrCodeServiceUnavailable = 503
   \<and> getHTTPStatusCode ErrCodeInternal = 500
   \<and> (\<forall>code. code \<notin> set predeclared_codes \<longrightarrow> getHTTPStatusCode code = 500)"
  by (simp add: getHTTPStatusCode_def predeclared_codes_def ErrCode_defs Status_defs)

theorem getHTTPStatusCode_table_witness:
  "''UNKNOWN'' \<notin> set predeclared_codes \<and> getHTTPStatusCode ''UNKNOWN'' = 500
   \<and> getHTTPStatusCode ''NOT_FOUND'' = 404"
  using getHTTPStatusCode_table
  by (simp add: predeclared_codes_def ErrCode_defs)

section \<open>The builders\<close>

lemma apply_calls_Trace: "Trace (apply_calls cs e) = Trace e"
proof (induction cs arbitrary: e)
  case Nil
  show ?case by simp
next
  case (Cons c cs)
  have "Trace (apply_call c e) = Trace e"
    by (cases c) (simp_all add: WithModule_def WithDetails_def WithRequestID_def)
  with Cons.IH [of "apply_call c e"] show ?case by simp
qed

text \<open>
  C8. \<open>WithoutTrace\<close> leaves the trace empty, and it stays empty under every chain of
  later calls of \<open>WithModule\<close>, \<open>WithDetails\<close> and \<open>WithRequestID\<close>. Each of the four
  builders changes its own field only: putting the old value of that field back
  gives the record it was called on.
\<close>

theorem WithoutTrace_stays_cleared:
  "Trace (WithoutTrace e) = []
   \<and> Trace (apply_calls cs (WithoutTrace e)) = []
   \<and> (WithoutTrace e)\<lparr>Trace := Trace e\<rparr> = e
   \<and> Module (WithModule m e) = m \<and> (WithModule m e)\<lparr>Module := Module e\<rparr> = e
   \<and> Details (WithDetails d e) = d \<and> (WithDetails d e)\<lparr>Details := Details e\<rparr> = e
   \<and> RequestID (WithRequestID i e) = i \<and> (WithRequestID i e)\<lparr>RequestID := RequestID e\<rparr> = e"
  by (simp add: apply_calls_Trace WithoutTrace_def WithModule_def WithDetails_def
      WithRequestID_def)

section \<open>The request id\<close>








section \<open>The stack capture\<close>

lemma has_system_prefix_iff:
  "has_system_prefix ps fn = (\<exists>p \<in> set ps. length p < length fn \<and> take (length p) fn = p)"
  by (induction ps) auto

lemma trace_step_eq:
  "trace_step frame acc = acc @ map render_frame (filter informative [frame])"
  by (simp add: trace_step_def informative_def)

lemma trace_loop_eq:
  "fs \<noteq> [] \<Longrightarrow> length acc < 10 \<Longrightarrow>
   trace_loop fs acc = take 10 (acc @ map render_frame (filter informative fs))"
proof (induction fs acc rule: trace_loop.induct)
  case (1 trace)
  then show ?case by simp
next
  case (2 frame trace)
  then show ?case by (simp add: trace_step_eq)
next
  case (3 frame nxt frames trace)
  let ?t = "trace_step frame trace"
  have step: "?t = trace @ map render_frame (filter informative [frame])"
    by (rule trace_step_eq)
  have split: "trace @ map render_frame (filter informative (frame # nxt # frames))
      = ?t @ map render_frame (filter informative (nxt # frames))"
    by (simp add: step)
  show ?case
  proof (cases "10 \<le> length ?t")
    case True
    with "3.prems" step have "length ?t = 10" by (simp split: if_splits)
    then have "take 10 (?t @ map render_frame (filter informative (nxt # frames))) = ?t"
      by simp
    with True split show ?thesis by (simp add: Let_def)
  next
    case False
    then have "length ?t < 10" by simp
    from "3.IH" [OF refl False _ this]
    have "trace_loop (nxt # frames) ?t
        = take 10 (?t @ map render_frame (filter informative (nxt # frames)))"
      by simp
    with False split show ?thesis by (simp add: Let_def)
  qed
qed

lemma getStackTrace_eq:
  "getStackTrace stack =
     (if drop 3 stack = [] then [render_frame zero_Frame]
      else take 10 (map render_frame (filter informative (take 15 (drop 3 stack)))))"
proof (cases "drop 3 stack = []")
  case True
  then show ?thesis
    by (simp add: getStackTrace_def runtime_Callers_def trace_step_def isSystemFrame_def
        zero_Frame_def systemPrefixes_def)
next
  case False
  then have "take 15 (drop 3 stack) \<noteq> []" by simp
  from trace_loop_eq [OF this, of "[]"] False show ?thesis
    by (simp add: getStackTrace_def runtime_Callers_def)
qed


lemma informative_deny_listed:
  assumes "Function frame \<notin> set systemPrefixes"
  shows "informative frame \<longleftrightarrow> \<not> deny_listed (Function frame)"
proof -
  have "length p < length (Function frame)"
    if "p \<in> set systemPrefixes" "take (length p) (Function frame) = p" for p
  proof (rule ccontr)
    assume "\<not> length p < length (Function frame)"
    with that(2) have "Function frame = p" by simp
    with that(1) assms show False by simp
  qed
  then show ?thesis
    unfolding informative_def isSystemFrame_def has_system_prefix_iff deny_listed_def
    by blast
qed

text \<open>
  C6, as amended. On a stack where NewAppError has a caller and no function is named
  by a bare prefix of the deny-list (as on every stack of a Go program),
  \<open>getStackTrace\<close> looks at no more than the first 15 frames above the frame of
  NewAppError, the size of its buffer of program counters, and keeps, in order, those
  whose function name does not start with a prefix of the deny-list, until 10 frames
  are kept or these 15 frames are exhausted. On every stack the trace has at most 10
  entries, and the entry of a frame is \<^verbatim>\<open><file>:<line> <function>\<close>.
\<close>

theorem getStackTrace_capture:
  "(drop 3 stack \<noteq> [] \<and> (\<forall>frame \<in> set stack. Function frame \<notin> set systemPrefixes) \<longrightarrow>
      getStackTrace stack =
        take 10 (map render_frame
          (filter (\<lambda>frame. \<not> deny_listed (Function frame)) (take 15 (drop 3 stack)))))
   \<and> length (getStackTrace stack) \<le> 10
   \<and> render_frame frame = File frame @ '':'' @ fmt_d (Line frame) @ '' '' @ Function frame"
proof -
  have len: "length (getStackTrace stack) \<le> 10"
    by (simp add: getStackTrace_eq)
  have trace: "getStackTrace stack =
        take 10 (map render_frame
          (filter (\<lambda>frame. \<not> deny_listed (Function frame)) (take 15 (drop 3 stack))))"
    if some: "drop 3 stack \<noteq> []"
      and names: "\<forall>frame \<in> set stack. Function frame \<notin> set systemPrefixes"
  proof -
    have "set (take 15 (drop 3 stack)) \<subseteq> set stack"
      using set_take_subset [of 15 "drop 3 stack"] set_drop_subset [of 3 stack] by blast
    with names
    have "\<forall>frame \<in> set (take 15 (drop 3 stack)).
        informative frame = (\<not> deny_listed (Function frame))"
      using informative_deny_listed by blast
    then have "filter informative (take 15 (drop 3 stack))
        = filter (\<lambda>frame. \<not> deny_listed (Function frame)) (take 15 (drop 3 stack))"
      by (intro filter_cong) simp_all
    with some show ?thesis by (simp add: getStackTrace_eq)
  qed
  from len trace show ?thesis by (simp add: render_frame_def)
qed

lemma fmt_d_42: "fmt_d 42 = ''42''"
  by (simp add: fmt_d_def decimal.simps digit_char_def)

lemmas frame_eval =
  informative_def isSystemFrame_def systemPrefixes_def frame_of_def inner_frames_def

theorem getStackTrace_capture_witness:
  "drop 3 short_stack \<noteq> []
   \<and> list_all (\<lambda>frame. Function frame \<notin> set systemPrefixes) short_stack
   \<and> getStackTrace short_stack = [''app.go:42 main.Handler.GetUser'']
   \<and> deny_listed ''net/http.HandlerFunc.ServeHTTP''
   \<and> length (getStackTrace short_stack) \<le> 10"
  using getStackTrace_capture [of short_stack "frame_of ''net/http.HandlerFunc.ServeHTTP''"]
  by (simp add: short_stack_def frame_eval deny_listed_def render_frame_def fmt_d_42)

text \<open>
  C6, as stated, fails on \<open>deep_stack\<close>, a handler behind six wrappers of net/http:
  the walk stops with 9 frames kept, although the stack is not exhausted and holds 10
  informative frames above NewAppError; the trace is not the first 10 informative
  frames of the stack.
\<close>

theorem getStackTrace_deep_stack:
  "length (getStackTrace deep_stack) = 9
   \<and> length (filter informative (drop 3 deep_stack)) = 10
   \<and> getStackTrace deep_stack
       \<noteq> take 10 (map render_frame (filter informative (drop 3 deep_stack)))"
proof -
  have a: "length (getStackTrace deep_stack) = 9"
    by (simp add: getStackTrace_eq deep_stack_def frame_eval)
  have b: "length (filter informative (drop 3 deep_stack)) = 10"
    by (simp add: deep_stack_def frame_eval)
  have c: "getStackTrace deep_stack
       \<noteq> take 10 (map render_frame (filter informative (drop 3 deep_stack)))"
  proof
    assume "getStackTrace deep_stack
       = take 10 (map render_frame (filter informative (drop 3 deep_stack)))"
    then have "length (getStackTrace deep_stack)
       = length (take 10 (map render_frame (filter informative (drop 3 deep_stack))))"
      by simp
    with a b show False by simp
  qed
  from a b c show ?thesis by blast
qed

section \<open>Module inference\<close>

lemma segments_run:
  "\<forall>c \<in> set cur. \<not> is_separator c \<Longrightarrow> cur \<noteq> [] \<Longrightarrow> rest = [] \<or> is_separator (hd rest) \<Longrightarrow>
   segments (cur @ rest) = cur # segments rest"
proof (induction cur)
  case Nil
  then show ?case by simp
next
  case (Cons c cur)
  show ?case
  proof (cases "cur = []")
    case True
    with Cons.prems show ?thesis by auto
  next
    case False
    with Cons.prems Cons.IH have "segments (cur @ rest) = cur # segments rest" by simp
    moreover from False have "\<not> is_separator (hd (cur @ rest))"
      using Cons.prems(1) by (cases cur) simp_all
    ultimately show ?thesis using Cons.prems(1) False by simp
  qed
qed

lemma segments_sep_free:
  "\<forall>c \<in> set cur. \<not> is_separator c \<Longrightarrow> segments cur = (if cur = [] then [] else [cur])"
  using segments_run [of cur "[]"] by simp

lemma split_fold:
  "\<forall>c \<in> set cur. \<not> is_separator c \<Longrightarrow>
   (case foldl split_step (parts, cur) s of
      (ps, c') \<Rightarrow> if c' \<noteq> [] then ps @ [c'] else ps) = parts @ segments (cur @ s)"
proof (induction s arbitrary: parts cur)
  case Nil
  then show ?case by (simp add: segments_sep_free)
next
  case (Cons c s)
  show ?case
  proof (cases "is_separator c")
    case True
    then have sep: "c = CHR ''/'' \<or> c = CHR ''.''" by (simp add: is_separator_def)
    show ?thesis
    proof (cases "cur = []")
      case True
      with sep Cons.IH [of "[]" parts] \<open>is_separator c\<close> show ?thesis
        by (simp add: split_step_def)
    next
      case False
      from sep False have "split_step (parts, cur) c = (parts @ [cur], [])"
        by (simp add: split_step_def)
      moreover have "segments (cur @ c # s) = cur # segments s"
        using segments_run [OF Cons.prems False, of "c # s"] \<open>is_separator c\<close> by simp
      ultimately show ?thesis using Cons.IH [of "[]" "parts @ [cur]"] by simp
    qed
  next
    case False
    then have "split_step (parts, cur) c = (parts, cur @ [c])"
      by (simp add: split_step_def is_separator_def)
    moreover have "\<forall>x \<in> set (cur @ [c]). \<not> is_separator x"
      using Cons.prems False by simp
    ultimately show ?thesis using Cons.IH [of "cur @ [c]" parts] by simp
  qed
qed

lemma split_parts_segments: "split_parts fn = segments fn"
  using split_fold [of "[]" "[]" fn] by (simp add: split_parts_def)

lemma segments_nonempty: "\<forall>p \<in> set (segments s). p \<noteq> []"
proof (induction s)
  case Nil
  show ?case by simp
next
  case (Cons c cs)
  show ?case
  proof (cases "segments cs")
    case Nil
    then show ?thesis by simp
  next
    case (Cons q qs)
    with Cons.IH have "q \<noteq> []" "\<forall>p \<in> set qs. p \<noteq> []" by simp_all
    with Cons show ?thesis by simp
  qed
qed

lemma last_significant_eq:
  "\<forall>p \<in> set ps. p \<noteq> [] \<Longrightarrow>
   last_significant ps =
     (case filter (\<lambda>p. \<not> generic_wrapper p) ps of [] \<Rightarrow> ''unknown'' | p # _ \<Rightarrow> p)"
  by (induction ps) (auto simp: generic_wrapper_def)

lemma extractModuleName_eq:
  "extractModuleName fn =
     (case filter (\<lambda>p. \<not> generic_wrapper p) (rev (segments fn)) of
        [] \<Rightarrow> ''unknown'' | p # _ \<Rightarrow> p)"
proof -
  have "\<forall>p \<in> set (rev (segments fn)). p \<noteq> []"
    using segments_nonempty [of fn] by simp
  from last_significant_eq [OF this] show ?thesis
    by (simp add: extractModuleName_def split_parts_segments)
qed

lemma getCurrentModule_eq:
  "getCurrentModule stack =
     (if 5 \<le> length stack then extractModuleName (Function (stack ! 3)) else ''unknown'')"
proof (cases "drop 3 stack")
  case Nil
  then show ?thesis by (simp add: getCurrentModule_def runtime_Callers_def)
next
  case (Cons f rest)
  then have f: "stack ! 3 = f"
    by (rule nth_via_drop)
  from Cons have "length (drop 3 stack) = Suc (length rest)" by simp
  then have len: "length stack = 4 + length rest" by simp
  show ?thesis
  proof (cases rest)
    case Nil
    with Cons len show ?thesis by (simp add: getCurrentModule_def runtime_Callers_def)
  next
    case (Cons g rest')
    with \<open>drop 3 stack = f # rest\<close> len f show ?thesis
      by (simp add: getCurrentModule_def runtime_Callers_def)
  qed
qed


lemma segments_sound:
  "(\<forall>p \<in> set (segments s). p \<noteq> [] \<and> (\<forall>c \<in> set p. \<not> is_separator c))
   \<and> concat (segments s) = filter (\<lambda>c. \<not> is_separator c) s"
proof (induction s)
  case Nil
  show ?case by simp
next
  case (Cons c cs)
  show ?case
  proof (cases "segments cs")
    case Nil
    with Cons.IH show ?thesis by simp
  next
    case (Cons q qs)
    with Cons.IH show ?thesis by simp
  qed
qed

text \<open>
  What the code computes. \<open>getCurrentModule\<close> uses the first frame above NewAppError,
  entry 3 of the stack, whenever \<^verbatim>\<open>Next\<close> reports that a frame follows it, and
  returns \<^verbatim>\<open>unknown\<close> otherwise; it does not consult the deny-list.
  \<open>extractModuleName\<close> splits the function name at \<^verbatim>\<open>/\<close> and \<^verbatim>\<open>.\<close>: the parts the
  loop builds are the segments of the name, each non-empty and free of separators,
  and together all its other characters. It returns the last segment that is not
  \<^verbatim>\<open>internal\<close> or \<^verbatim>\<open>pkg\<close>, and \<^verbatim>\<open>unknown\<close> when there is none.
\<close>

lemma getCurrentModule_first_frame:
  "getCurrentModule stack =
     (if 5 \<le> length stack then extractModuleName (Function (stack ! 3)) else ''unknown'')
   \<and> split_parts fn = segments fn
   \<and> (\<forall>p \<in> set (segments fn). p \<noteq> [] \<and> (\<forall>c \<in> set p. \<not> is_separator c))
   \<and> concat (segments fn) = filter (\<lambda>c. \<not> is_separator c) fn
   \<and> extractModuleName fn =
       (case filter (\<lambda>p. \<not> generic_wrapper p) (rev (segments fn)) of
          [] \<Rightarrow> ''unknown'' | p # _ \<Rightarrow> p)"
  using getCurrentModule_eq [of stack] split_parts_segments [of fn] segments_sound [of fn]
    extractModuleName_eq [of fn]
  by simp

lemma segments_GetUser: "segments ''main.Handler.GetUser'' = [''main'', ''Handler'', ''GetUser'']"
  by (simp add: is_separator_def)

lemma getCurrentModule_examples:
  "getCurrentModule short_stack = ''GetUser''"
  "extractModuleName ''github.com/org/project/internal'' = ''project''"
  "extractModuleName ''internal/pkg'' = ''unknown''"
  "getCurrentModule [] = ''unknown''"
  by (simp_all add: getCurrentModule_eq extractModuleName_eq short_stack_def frame_eval
      is_separator_def generic_wrapper_def)

text \<open>
  C7. The specification infers the module from the first frame that the deny-list
  does not skip; \<open>getCurrentModule\<close> never calls \<^verbatim>\<open>isSystemFrame\<close> and takes the
  first frame above NewAppError whatever its name. On \<open>reflect_stack\<close> that frame is
  \<^verbatim>\<open>reflect.Value.call\<close>, which the deny-list skips: the module of the code is
  \<^verbatim>\<open>call\<close>, while the first frame that is not skipped, with which the trace of the
  same record begins, is \<^verbatim>\<open>main.invoke\<close>, and the module of the specification is
  \<^verbatim>\<open>invoke\<close>.
\<close>

theorem getCurrentModule_ignores_deny_list:
  "getCurrentModule reflect_stack = ''call''
   \<and> Function (reflect_stack ! 3) = ''reflect.Value.call''
   \<and> deny_listed (Function (reflect_stack ! 3))
   \<and> isSystemFrame (Function (reflect_stack ! 3))
   \<and> first_non_skipped reflect_stack = Some (frame_of ''main.invoke'')
   \<and> spec_module_inference reflect_stack = ''invoke''
   \<and> getStackTrace reflect_stack = [''app.go:42 main.invoke'', ''app.go:42 main.main'']
   \<and> getCurrentModule reflect_stack \<noteq> spec_module_inference reflect_stack"
proof -
  have a: "getCurrentModule reflect_stack = ''call''"
    by (simp add: getCurrentModule_eq extractModuleName_eq reflect_stack_def frame_eval
        is_separator_def generic_wrapper_def)
  have b: "Function (reflect_stack ! 3) = ''reflect.Value.call''"
    by (simp add: reflect_stack_def frame_eval)
  have c: "deny_listed ''reflect.Value.call''" "isSystemFrame ''reflect.Value.call''"
    by (simp_all add: deny_listed_def frame_eval)
  have d: "first_non_skipped reflect_stack = Some (frame_of ''main.invoke'')"
    by (simp add: first_non_skipped_def reflect_stack_def deny_listed_def frame_eval)
  have e: "spec_module_inference reflect_stack = ''invoke''"
    by (simp add: spec_module_inference_def d)
      (simp add: frame_of_def is_separator_def generic_wrapper_def)
  have f: "getStackTrace reflect_stack = [''app.go:42 main.invoke'', ''app.go:42 main.main'']"
    by (simp add: getStackTrace_eq reflect_stack_def frame_eval render_frame_def fmt_d_42)
  from a b c d e f show ?thesis by simp
qed

section \<open>The constructor\<close>





section \<open>The writers\<close>

lemma WriteErrorResponse_encoded:
  assumes "marshal_AppError err = Some j"
  shows "WriteErrorResponse w err =
     Write (JSONLine (JObj [(''success'', JBool False), (''error'', j)]))
       (WriteHeader (getHTTPStatusCode (Code err))
          (Header_Set ''Content-Type'' ''application/json'' w))"
  using assms by (simp add: WriteErrorResponse_def Encode_def Let_def)

lemma WriteErrorResponse_fallback:
  assumes "marshal_AppError err = None"
  shows "WriteErrorResponse w err =
     http_Error
       (WriteHeader (getHTTPStatusCode (Code err))
          (Header_Set ''Content-Type'' ''application/json'' w))
       ''Internal server error'' StatusInternalServerError"
  using assms by (simp add: WriteErrorResponse_def Encode_def Let_def)

lemma sink_after_write:
  "body (Write c (WriteHeader code (Header_Set k v w))) = body w @ [c]"
  "header (Write c (WriteHeader code (Header_Set k v w))) k = Some v"
  "\<not> wroteHeader w \<Longrightarrow> status (Write c (WriteHeader code (Header_Set k v w))) = code"
  "\<not> wroteHeader w \<Longrightarrow> sentHeader (Write c (WriteHeader code (Header_Set k v w))) k = Some v"
  "wroteHeader w \<Longrightarrow> status (Write c (WriteHeader code (Header_Set k v w))) = status w"
  "wroteHeader w \<Longrightarrow>
     sentHeader (Write c (WriteHeader code (Header_Set k v w))) = sentHeader w"
  by (simp_all add: Write_def WriteHeader_def Header_Set_def Let_def)

text \<open>
  The two paths of \<open>WriteErrorResponse\<close> on a sink whose header has not been sent.
  When the record encodes, the response has the status of the table, the Content-Type
  \<^verbatim>\<open>application/json\<close> and the failure envelope as body. When it does not, the
  status and the Content-Type that were sent are the same; only the header map and
  the body show the fallback.
\<close>

lemma WriteErrorResponse_envelope:
  assumes "marshal_AppError err = Some j" and "\<not> wroteHeader w"
  shows "status (WriteErrorResponse w err) = getHTTPStatusCode (Code err)"
    and "sentHeader (WriteErrorResponse w err) ''Content-Type'' = Some ''application/json''"
    and "body (WriteErrorResponse w err)
           = body w @ [JSONLine (JObj [(''success'', JBool False), (''error'', j)])]"
  using assms(2) by (simp_all add: WriteErrorResponse_encoded [OF assms(1)] sink_after_write)

lemma WriteErrorResponse_fallback_sink:
  assumes "marshal_AppError err = None" and "\<not> wroteHeader w"
  shows "status (WriteErrorResponse w err) = getHTTPStatusCode (Code err)"
    and "sentHeader (WriteErrorResponse w err) ''Content-Type'' = Some ''application/json''"
    and "header (WriteErrorResponse w err) ''Content-Type'' = Some ''text/plain; charset=utf-8''"
    and "body (WriteErrorResponse w err) = body w @ [TextLine ''Internal server error'']"
  using assms(2)
  by (simp_all add: WriteErrorResponse_fallback [OF assms(1)] http_Error_def Write_def
      WriteHeader_def Header_Set_def Let_def)

text \<open>
  C10. \<open>WriteSuccessResponse\<close> sets the Content-Type of the header map to
  \<^verbatim>\<open>application/json\<close> and, on a sink whose header has not been sent, sends it with
  status 200. For the nil payload the envelope it writes is \<^verbatim>\<open>{"success":true}\<close>,
  with no \<^verbatim>\<open>data\<close> member; for a payload that is not nil and has a JSON form the
  envelope has the member \<^verbatim>\<open>data\<close>.
\<close>

theorem WriteSuccessResponse_nil_data:
  "header (WriteSuccessResponse w data) ''Content-Type'' = Some ''application/json''
   \<and> (\<not> wroteHeader w \<longrightarrow>
        status (WriteSuccessResponse w data) = 200
        \<and> sentHeader (WriteSuccessResponse w data) ''Content-Type'' = Some ''application/json'')
   \<and> body (WriteSuccessResponse w GoNil) = body w @ [JSONLine (JObj [(''success'', JBool True)])]
   \<and> (data \<noteq> GoNil \<and> json_Marshal data = Some j \<longrightarrow>
        body (WriteSuccessResponse w data)
          = body w @ [JSONLine (JObj [(''success'', JBool True), (''data'', j)])])"
proof -
  let ?w2 = "WriteHeader StatusOK (Header_Set ''Content-Type'' ''application/json'' w)"
  have w2: "header ?w2 ''Content-Type'' = Some ''application/json''"
    "\<not> wroteHeader w \<Longrightarrow> status ?w2 = 200"
    "\<not> wroteHeader w \<Longrightarrow> sentHeader ?w2 ''Content-Type'' = Some ''application/json''"
    "wroteHeader ?w2"
    by (simp_all add: WriteHeader_def Header_Set_def StatusOK_def)
  have keep: "header (snd (Encode doc ?w2)) = header ?w2
      \<and> status (snd (Encode doc ?w2)) = status ?w2
      \<and> sentHeader (snd (Encode doc ?w2)) = sentHeader ?w2" for doc
    using w2(4) by (cases doc) (simp_all add: Encode_def Write_def Let_def)
  have out: "WriteSuccessResponse w data = snd (Encode (marshal_SuccessResponse (SuccessResponse True data)) ?w2)"
    by (simp add: WriteSuccessResponse_def Let_def)
  have nil: "body (WriteSuccessResponse w GoNil) = body w @ [JSONLine (JObj [(''success'', JBool True)])]"
    by (simp add: WriteSuccessResponse_def Let_def Encode_def sink_after_write)
  have some: "body (WriteSuccessResponse w data)
          = body w @ [JSONLine (JObj [(''success'', JBool True), (''data'', j)])]"
    if "data \<noteq> GoNil" "json_Marshal data = Some j"
    using that by (simp add: WriteSuccessResponse_def Let_def Encode_def sink_after_write)
  from w2 keep [of "marshal_SuccessResponse (SuccessResponse True data)"] out nil some
  show ?thesis by simp
qed

theorem WriteSuccessResponse_nil_data_witness:
  "\<not> wroteHeader NewRecorder
   \<and> status (WriteSuccessResponse NewRecorder GoNil) = 200
   \<and> sentHeader (WriteSuccessResponse NewRecorder GoNil) ''Content-Type'' = Some ''application/json''
   \<and> body (WriteSuccessResponse NewRecorder GoNil) = [JSONLine (JObj [(''success'', JBool True)])]
   \<and> body (WriteSuccessResponse NewRecorder (GoMap [(''name'', GoString ''John Doe''), (''user_id'', GoInt 123)]))
       = [JSONLine (JObj [(''success'', JBool True),
            (''data'', JObj [(''name'', JStr ''John Doe''), (''user_id'', JNum 123)])])]"
  using WriteSuccessResponse_nil_data [of NewRecorder GoNil]
    WriteSuccessResponse_nil_data [of NewRecorder
      "GoMap [(''name'', GoString ''John Doe''), (''user_id'', GoInt 123)]"
      "JObj [(''name'', JStr ''John Doe''), (''user_id'', JNum 123)]"]
  by (simp add: NewRecorder_def to_valid_utf8_ascii canonical_sorted less_char_def)

text \<open>
  C3. The fallback of \<open>WriteErrorResponse\<close> on the record \<open>unencodable_error\<close>, of
  code \<^verbatim>\<open>NOT_FOUND\<close> and with a channel as details, on a fresh recorder: the encoding
  fails, and the response is the line \<^verbatim>\<open>Internal server error\<close> with status 404 and
  the Content-Type \<^verbatim>\<open>application/json\<close> that were sent before the encoding was
  tried; the \<^verbatim>\<open>WriteHeader(500)\<close> of \<^verbatim>\<open>http.Error\<close> comes too late, and its
  Content-Type \<^verbatim>\<open>text/plain\<close> reaches the header map only.
\<close>

theorem WriteErrorResponse_fallback_status:
  "marshal_AppError unencodable_error = None
   \<and> status (WriteErrorResponse NewRecorder unencodable_error) = 404
   \<and> sentHeader (WriteErrorResponse NewRecorder unencodable_error) ''Content-Type''
       = Some ''application/json''
   \<and> header (WriteErrorResponse NewRecorder unencodable_error) ''Content-Type''
       = Some ''text/plain; charset=utf-8''
   \<and> body (WriteErrorResponse NewRecorder unencodable_error)
       = [TextLine ''Internal server error'']"
proof -
  have m: "marshal_AppError unencodable_error = None"
    by (simp add: marshal_AppError_def unencodable_error_def zero_AppError_def)
  have c: "getHTTPStatusCode (Code unencodable_error) = 404"
    by (simp add: unencodable_error_def zero_AppError_def getHTTPStatusCode_def
        ErrCode_defs Status_defs)
  show ?thesis
    by (simp add: m c WriteErrorResponse_fallback [OF m] http_Error_def Write_def
        WriteHeader_def Header_Set_def NewRecorder_def Let_def)
qed


section \<open>The recovery wrapper\<close>

lemma recovered_error_fields:
  "Code (recovered_error rt critical system err) = ''INTERNAL_ERROR''"
  "Message (recovered_error rt critical system err) = ''Internal server error''"
  "Module (recovered_error rt critical system err) = ''middleware''"
  "Details (recovered_error rt critical system err)
     = GoString (''Panic recovered: '' @ fmt_v (FormatValue rt) err)"
  "Timestamp (recovered_error rt critical system err) = time_Unix (Now rt)"
  "Trace (recovered_error rt critical system err) = getStackTrace (Stack rt)"
  "RequestID (recovered_error rt critical system err) = []"
  by (simp_all add: recovered_error_def WithModule_def WithDetails_def WithUserID_def
      IsSystemError_def WithErrorCode_def IsCritical_def create_def NewAppError_def
      Let_def ErrCodeInternal_def)

lemma recovered_error_marshal:
  "marshal_AppError (recovered_error rt critical system err) = Some (recovered_object rt err)"
  by (simp add: marshal_AppError_def recovered_error_fields recovered_object_def
      to_valid_utf8_ascii)

lemma recovered_error_written:
  "WriteErrorResponse w (recovered_error rt critical system err) =
     Write (JSONLine (recovered_document rt err))
       (WriteHeader 500 (Header_Set ''Content-Type'' ''application/json'' w))"
proof -
  have "getHTTPStatusCode (Code (recovered_error rt critical system err)) = 500"
    by (simp add: recovered_error_fields getHTTPStatusCode_def ErrCode_defs Status_defs)
  with WriteErrorResponse_encoded [OF recovered_error_marshal] show ?thesis
    by (simp add: recovered_document_def)
qed

text \<open>
  C1, as amended. The wrapper always returns: no panic of the handler passes it, and
  a handler that returns is passed through. When the handler panics with a value
  that \<^verbatim>\<open>recover()\<close> reports as not nil, the wrapper builds one record, with code
  \<^verbatim>\<open>INTERNAL_ERROR\<close>, message \<^verbatim>\<open>Internal server error\<close>, module \<^verbatim>\<open>middleware\<close> and
  as details the string \<^verbatim>\<open>Panic recovered: \<close> followed by the printed value (the
  string itself when the value is a string), and writes it with
  \<open>WriteErrorResponse\<close>: one envelope is appended to the body. The status is 500 when
  the handler had not sent the header before it panicked; when it had, the status
  and headers it sent stand.
\<close>

theorem ErrorRecoveryMiddleware_contains:
  "(\<exists>w''. ErrorRecoveryMiddleware rt critical system next w r = Returned w'')
   \<and> (next w r = Returned w' \<longrightarrow>
        ErrorRecoveryMiddleware rt critical system next w r = Returned w')
   \<and> (next w r = Panicked err w' \<and> err \<noteq> GoNil \<longrightarrow>
        Code (recovered_error rt critical system err) = ''INTERNAL_ERROR''
        \<and> Message (recovered_error rt critical system err) = ''Internal server error''
        \<and> Module (recovered_error rt critical system err) = ''middleware''
        \<and> Details (recovered_error rt critical system err)
            = GoString (''Panic recovered: '' @ fmt_v (FormatValue rt) err)
        \<and> (err = GoString s \<longrightarrow>
             Details (recovered_error rt critical system err)
               = GoString (''Panic recovered: '' @ s))
        \<and> ErrorRecoveryMiddleware rt critical system next w r
            = Returned (WriteErrorResponse w' (recovered_error rt critical system err))
        \<and> body (WriteErrorResponse w' (recovered_error rt critical system err))
            = body w' @ [JSONLine (recovered_document rt err)]
        \<and> (\<not> wroteHeader w' \<longrightarrow>
             status (WriteErrorResponse w' (recovered_error rt critical system err)) = 500
             \<and> sentHeader (WriteErrorResponse w' (recovered_error rt critical system err))
                  ''Content-Type'' = Some ''application/json'')
        \<and> (wroteHeader w' \<longrightarrow>
             status (WriteErrorResponse w' (recovered_error rt critical system err)) = status w'
             \<and> sentHeader (WriteErrorResponse w' (recovered_error rt critical system err))
                  = sentHeader w'))"
proof -
  have contained: "\<exists>w''. ErrorRecoveryMiddleware rt critical system next w r = Returned w''"
    by (cases "next w r") (simp_all add: ErrorRecoveryMiddleware_def)
  have passed: "ErrorRecoveryMiddleware rt critical system next w r = Returned w'"
    if "next w r = Returned w'"
    using that by (simp add: ErrorRecoveryMiddleware_def)
  have caught: "ErrorRecoveryMiddleware rt critical system next w r
            = Returned (WriteErrorResponse w' (recovered_error rt critical system err))"
    if "next w r = Panicked err w'" "err \<noteq> GoNil"
    using that by (simp add: ErrorRecoveryMiddleware_def)
  have printed: "fmt_v (FormatValue rt) (GoString s) = s"
    by (simp add: fmt_v_def)
  from contained passed caught printed show ?thesis
    by (simp add: recovered_error_fields recovered_error_written sink_after_write)
qed

theorem ErrorRecoveryMiddleware_contains_witness:
  "panics_at_once NewRecorder example_request = Panicked (GoString ''Test panic'') NewRecorder
   \<and> ErrorRecoveryMiddleware example_runtime [] [] panics_at_once NewRecorder example_request
       = Returned (WriteErrorResponse NewRecorder
           (recovered_error example_runtime [] [] (GoString ''Test panic'')))
   \<and> status (WriteErrorResponse NewRecorder
         (recovered_error example_runtime [] [] (GoString ''Test panic''))) = 500
   \<and> Details (recovered_error example_runtime [] [] (GoString ''Test panic''))
       = GoString ''Panic recovered: Test panic''"
  using ErrorRecoveryMiddleware_contains [of example_runtime "[]" "[]" panics_at_once
      NewRecorder example_request NewRecorder "GoString ''Test panic''" "''Test panic''"]
  by (auto simp: panics_at_once_def NewRecorder_def)

text \<open>
  C1, as stated, fails for the handler \<open>panics_after_header\<close>, which sends the header
  with status 200 and then panics: the status of the response stays 200.
\<close>

theorem ErrorRecoveryMiddleware_after_header:
  "panics_after_header NewRecorder example_request
     = Panicked (GoString ''Test panic'') (WriteHeader StatusOK NewRecorder)
   \<and> status (sink_of (ErrorRecoveryMiddleware example_runtime [] [] panics_after_header
         NewRecorder example_request)) = 200"
  by (simp add: panics_after_header_def ErrorRecoveryMiddleware_def recovered_error_written
      Write_def WriteHeader_def Header_Set_def NewRecorder_def StatusOK_def Let_def)


end
